theory Spec2Isabelle
  imports Complex_Main
begin

section \<open>Messages and Python helpers\<close>

text \<open>
  Both notebooks pass chat messages around as dictionaries with the two keys
  \<^verbatim>\<open>"role"\<close> and \<^verbatim>\<open>"content"\<close>. A Python \<^verbatim>\<open>str\<close> is modelled as a
  \<^typ>\<open>string\<close>, one \<^typ>\<open>char\<close> standing for one character of the Python string, so
  that \<^const>\<open>length\<close> is Python's \<^verbatim>\<open>len\<close>. The code below only measures,
  compares and concatenates strings, so nothing depends on the size of the alphabet.
\<close>

record message =
  role :: string
  content :: string

text \<open>\<^verbatim>\<open>xs[-5:]\<close>: the last five items, or all of them when there are fewer.\<close>

definition last_five :: "'a list \<Rightarrow> 'a list" where
  "last_five xs = drop (length xs - 5) xs"

text \<open>
  Exceptions are values. \<open>IndexError\<close> is what \<^verbatim>\<open>context[-1]\<close> raises on an empty
  list; \<open>Error m\<close> is any other instance of \<^verbatim>\<open>Exception\<close> whose \<^verbatim>\<open>str\<close> is
  \<open>m\<close> (a failure of the remote model call, for one). \<open>str_exn\<close> is \<^verbatim>\<open>str(e)\<close>.
\<close>

datatype exn = IndexError | Error string

fun str_exn :: "exn \<Rightarrow> string" where
  "str_exn IndexError = ''list index out of range''"
| "str_exn (Error m) = m"

text \<open>The line feed that the source writes \<^verbatim>\<open>\n\<close>.\<close>

definition nl :: string where
  "nl = [CHR 0x0A]"

text \<open>\<^verbatim>\<open>sep.join(parts)\<close>.\<close>

fun join :: "string \<Rightarrow> string list \<Rightarrow> string" where
  "join sep [] = []"
| "join sep [x] = x"
| "join sep (x # y # ys) = x @ sep @ join sep (y # ys)"

section \<open>Memory-enhanced conversational agent\<close>

subsection \<open>Memory stores\<close>

text \<open>
  The two module-level dictionaries \<^verbatim>\<open>chat_store\<close> and \<^verbatim>\<open>long_term_memory\<close>,
  keyed by session id. An entry of the long-term store is a list of two messages
  (the user's and the assistant's).
\<close>

record memory =
  chat_store :: "string \<rightharpoonup> message list"
  long_term_memory :: "string \<rightharpoonup> message list list"

definition empty_memory :: memory where
  "empty_memory = \<lparr>chat_store = Map.empty, long_term_memory = Map.empty\<rparr>"

text \<open>
  \<^verbatim>\<open>d.get(k, [])\<close>. It also stands for \<^verbatim>\<open>d[k]\<close> at the places where the
  key has just been created, where no \<^verbatim>\<open>KeyError\<close> is possible.
\<close>

definition get_or_empty :: "(string \<rightharpoonup> 'a list) \<Rightarrow> string \<Rightarrow> 'a list" where
  "get_or_empty d k = (case d k of None \<Rightarrow> [] | Some v \<Rightarrow> v)"

text \<open>
  \<^verbatim>\<open>get_chat_history\<close> creates an empty history on first reference and returns the
  session's list.
\<close>

definition get_chat_history :: "string \<Rightarrow> memory \<Rightarrow> message list \<times> memory" where
  "get_chat_history session_id s =
     (let s1 = (if chat_store s session_id = None
                then s\<lparr>chat_store := (chat_store s)(session_id \<mapsto> [])\<rparr> else s)
      in (get_or_empty (chat_store s1) session_id, s1))"

text \<open>
  \<^verbatim>\<open>update_long_term_memory\<close>, statement by statement: create the entry, append the
  pair when the input is longer than 20 characters, cut the list to its last five
  items when it is longer than five.
\<close>

definition update_long_term_memory :: "string \<Rightarrow> string \<Rightarrow> string \<Rightarrow> memory \<Rightarrow> memory" where
  "update_long_term_memory session_id input_text output_text s =
     (let m0 = long_term_memory s;
          m1 = (if m0 session_id = None then m0(session_id \<mapsto> []) else m0);
          m2 = (if length input_text > 20
                then m1(session_id \<mapsto> get_or_empty m1 session_id @
                       [[\<lparr>role = ''user'', content = input_text\<rparr>,
                         \<lparr>role = ''assistant'', content = output_text\<rparr>]])
                else m1);
          m3 = (if length (get_or_empty m2 session_id) > 5
                then m2(session_id \<mapsto> last_five (get_or_empty m2 session_id))
                else m2)
      in s\<lparr>long_term_memory := m3\<rparr>)"

text \<open>
  \<^verbatim>\<open>get_long_term_memory\<close>. Python's built-in \<^verbatim>\<open>str\<close> of a list of
  dictionaries is not code of the repository; it is the parameter \<open>py_str\<close>.
\<close>

definition get_long_term_memory :: "(message list \<Rightarrow> string) \<Rightarrow> string \<Rightarrow> memory \<Rightarrow> string" where
  "get_long_term_memory py_str session_id s =
     join ''. '' (map py_str (get_or_empty (long_term_memory s) session_id))"

subsection \<open>Sequences of calls\<close>

text \<open>
  The pair that an admitted call stores, a call as the triple of its arguments, and
  a sequence of calls of \<^const>\<open>update_long_term_memory\<close> run in order.
\<close>

definition turn_pair :: "string \<Rightarrow> string \<Rightarrow> message list" where
  "turn_pair input_text output_text =
     [\<lparr>role = ''user'', content = input_text\<rparr>, \<lparr>role = ''assistant'', content = output_text\<rparr>]"

fun run_updates :: "(string \<times> string \<times> string) list \<Rightarrow> memory \<Rightarrow> memory" where
  "run_updates [] s = s"
| "run_updates ((session_id, input_text, output_text) # calls) s =
     run_updates calls (update_long_term_memory session_id input_text output_text s)"

text \<open>The long-term entries of a session, as \<^verbatim>\<open>long_term_memory.get(session_id, [])\<close> reads them.\<close>

definition long_term_of :: "memory \<Rightarrow> string \<Rightarrow> message list list" where
  "long_term_of s session_id = get_or_empty (long_term_memory s) session_id"

text \<open>The pairs that the calls for one session admit, in call order.\<close>

fun admitted :: "string \<Rightarrow> (string \<times> string \<times> string) list \<Rightarrow> message list list" where
  "admitted session_id [] = []"
| "admitted session_id ((sid, input_text, output_text) # calls) =
     (if sid = session_id \<and> length input_text > 20
      then turn_pair input_text output_text # admitted session_id calls
      else admitted session_id calls)"

subsection \<open>Response generation and the conversational logic\<close>

text \<open>
  The remote call \<^verbatim>\<open>client.chat.completions.create(...).choices[0].message.content\<close>
  is the parameter \<open>create\<close>: given the messages it returns the completion's text
  or raises. \<^verbatim>\<open>generate_response\<close> wraps the prompt into a system and a user message.
\<close>

definition generate_response :: "(message list \<Rightarrow> exn + string) \<Rightarrow> string \<Rightarrow> string \<Rightarrow> exn + string" where
  "generate_response create prompt session_id =
     create [\<lparr>role = ''system'', content = ''You are a helpful assistant.''\<rparr>,
             \<lparr>role = ''user'', content = prompt\<rparr>]"

text \<open>
  The statements of \<^verbatim>\<open>chat\<close> that build the prompt, from the rendered long-term
  memory, the chat history and the new input; the \<^verbatim>\<open>for\<close> loop over the history
  is the \<^const>\<open>foldl\<close>.
\<close>

definition build_prompt :: "string \<Rightarrow> message list \<Rightarrow> string \<Rightarrow> string" where
  "build_prompt long_term_mem chat_history input_text =
     (let prompt = ''You are a helpful AI assistant. Use the information from long-term memory if relevant.'' @ nl;
          prompt = prompt @ (if long_term_mem \<noteq> []
                             then ''Long-term memory: '' @ long_term_mem @ nl
                             else ''No long-term memory yet.'' @ nl);
          prompt = foldl (\<lambda>prompt message. prompt @ role message @ '': '' @ content message @ nl)
                     prompt chat_history
      in prompt @ ''user: '' @ input_text @ nl)"

text \<open>The prompt that \<^verbatim>\<open>chat\<close> composes in a given state of the stores.\<close>

definition chat_prompt :: "(message list \<Rightarrow> string) \<Rightarrow> string \<Rightarrow> string \<Rightarrow> memory \<Rightarrow> string" where
  "chat_prompt py_str input_text session_id s =
     (let long_term_mem = get_long_term_memory py_str session_id s;
          (chat_history, s1) = get_chat_history session_id s
      in build_prompt long_term_mem chat_history input_text)"

text \<open>
  \<^verbatim>\<open>chat\<close>. The result is the response or the exception of the remote call,
  together with the stores as the call leaves them. \<^verbatim>\<open>chat_history\<close> is the list
  object held in \<^verbatim>\<open>chat_store\<close>, so the two appends change the store's entry.
\<close>

definition chat :: "(message list \<Rightarrow> string) \<Rightarrow> (message list \<Rightarrow> exn + string) \<Rightarrow> string \<Rightarrow> string \<Rightarrow> memory \<Rightarrow> (exn + string) \<times> memory" where
  "chat py_str create input_text session_id s =
     (let long_term_mem = get_long_term_memory py_str session_id s;
          (chat_history, s1) = get_chat_history session_id s;
          prompt = build_prompt long_term_mem chat_history input_text
      in case generate_response create prompt session_id of
           Inl e \<Rightarrow> (Inl e, s1)
         | Inr response \<Rightarrow>
             (let chat_history = chat_history @ [\<lparr>role = ''user'', content = input_text\<rparr>];
                  chat_history = chat_history @ [\<lparr>role = ''assitant'', content = response\<rparr>];
                  s2 = s1\<lparr>chat_store := (chat_store s1)(session_id \<mapsto> chat_history)\<rparr>;
                  s3 = update_long_term_memory session_id input_text response s2
              in (Inr response, s3)))"

text \<open>The chat history of a session, as \<^verbatim>\<open>chat_store.get(session_id, [])\<close> reads it.\<close>

definition history_of :: "memory \<Rightarrow> string \<Rightarrow> message list" where
  "history_of s session_id = get_or_empty (chat_store s) session_id"

section \<open>History and data analysis collaboration system\<close>

subsection \<open>Agents\<close>

text \<open>
  An \<^verbatim>\<open>Agent\<close> has a name, a role and skills (the field \<^verbatim>\<open>role\<close> is
  \<open>agent_role\<close> here, \<open>role\<close> being the key of a message).

  The outside world is a state \<open>'w\<close> threaded through every call that touches it. The
  remote model call takes the messages and the world and returns the text or raises;
  \<^verbatim>\<open>time.time()\<close> reads the clock. Both are parameters of the model.
\<close>

record agent =
  name :: string
  agent_role :: string
  skills :: "string list"

type_synonym 'w boundary = "message list \<Rightarrow> 'w \<Rightarrow> (exn + string) \<times> 'w"

type_synonym 'w clock = "'w \<Rightarrow> real \<times> 'w"

text \<open>\<^verbatim>\<open>Agent.process\<close>; \<open>None\<close> is the default \<^verbatim>\<open>context=None\<close>.\<close>

definition process :: "'w boundary \<Rightarrow> agent \<Rightarrow> string \<Rightarrow> message list option \<Rightarrow> 'w \<Rightarrow> (exn + string) \<times> 'w" where
  "process create self task context w =
     (let messages = [\<lparr>role = ''system'', content = ''You are '' @ name self @ '', a '' @
                         agent_role self @ ''. Your skills include: '' @ join '', '' (skills self) @
                         ''. Respond to the task based on your role and skills.''\<rparr>];
          messages = (case context of
                        None \<Rightarrow> messages
                      | Some c \<Rightarrow> if c \<noteq> [] then messages @ c else messages);
          messages = messages @ [\<lparr>role = ''user'', content = ''Task: '' @ task\<rparr>]
      in create messages w)"

subsection \<open>The steps of the collaboration\<close>

text \<open>
  A step returns the context (a list) or the final answer (a string), or raises.
  \<open>last_content\<close> is \<^verbatim>\<open>context[-1]["content"]\<close>. The \<^verbatim>\<open>print\<close> calls are left out.
\<close>

datatype step_result = Context "message list" | Final string

type_synonym 'w step_func = "agent \<Rightarrow> string \<Rightarrow> message list \<Rightarrow> 'w \<Rightarrow> (exn + step_result) \<times> 'w"

definition last_content :: "message list \<Rightarrow> exn + string" where
  "last_content context = (if context = [] then Inl IndexError else Inr (content (last context)))"

definition research_historical_context :: "'w boundary \<Rightarrow> 'w step_func" where
  "research_historical_context create history_agent task context w =
     (let history_task = ''Provide relevant historical context and information for the following task: '' @ task
      in case process create history_agent history_task None w of
           (Inl e, w1) \<Rightarrow> (Inl e, w1)
         | (Inr history_result, w1) \<Rightarrow>
             (Inr (Context (context @
                [\<lparr>role = ''assistant'', content = ''History Agent: '' @ history_result\<rparr>])), w1))"

definition identify_data_needs :: "'w boundary \<Rightarrow> 'w step_func" where
  "identify_data_needs create data_agent task context w =
     (case last_content context of
        Inl e \<Rightarrow> (Inl e, w)
      | Inr historical_context \<Rightarrow>
          (let data_need_task = ''Based on the historical context, what specific data or statistical information would be helpful to answer the original question? Historical context: '' @ historical_context
           in case process create data_agent data_need_task (Some context) w of
                (Inl e, w1) \<Rightarrow> (Inl e, w1)
              | (Inr data_need_result, w1) \<Rightarrow>
                  (Inr (Context (context @
                     [\<lparr>role = ''assistant'', content = ''Data Agent: '' @ data_need_result\<rparr>])), w1)))"

definition provide_historical_data :: "'w boundary \<Rightarrow> 'w step_func" where
  "provide_historical_data create history_agent task context w =
     (case last_content context of
        Inl e \<Rightarrow> (Inl e, w)
      | Inr data_needs \<Rightarrow>
          (let data_provision_task = ''Based on the data needs identified, provide relevant historical data or statistics. Data needs: '' @ data_needs
           in case process create history_agent data_provision_task (Some context) w of
                (Inl e, w1) \<Rightarrow> (Inl e, w1)
              | (Inr data_provision_result, w1) \<Rightarrow>
                  (Inr (Context (context @
                     [\<lparr>role = ''assistant'', content = ''History Agent: '' @ data_provision_result\<rparr>])), w1)))"

definition analyze_data :: "'w boundary \<Rightarrow> 'w step_func" where
  "analyze_data create data_agent task context w =
     (case last_content context of
        Inl e \<Rightarrow> (Inl e, w)
      | Inr historical_data \<Rightarrow>
          (let analysis_task = ''Analyze the historical data provided and describe any trends or insights relevant to the original task. Historical data: '' @ historical_data
           in case process create data_agent analysis_task (Some context) w of
                (Inl e, w1) \<Rightarrow> (Inl e, w1)
              | (Inr analysis_result, w1) \<Rightarrow>
                  (Inr (Context (context @
                     [\<lparr>role = ''assistant'', content = ''Data Agent: '' @ analysis_result\<rparr>])), w1)))"

definition synthesize_final_answer :: "'w boundary \<Rightarrow> 'w step_func" where
  "synthesize_final_answer create history_agent task context w =
     (let synthesis_task = ''Based on all the historical context, data, and analysis, provide a comprehensive answer to the original task.''
      in case process create history_agent synthesis_task (Some context) w of
           (Inl e, w1) \<Rightarrow> (Inl e, w1)
         | (Inr final_result, w1) \<Rightarrow> (Inr (Final final_result), w1))"

subsection \<open>The collaboration system\<close>

text \<open>
  The \<^verbatim>\<open>for\<close> loop of \<^verbatim>\<open>solve\<close> over the remaining steps. \<open>Inl\<close> is a
  \<^verbatim>\<open>return\<close> from inside the loop (the timeout string, a step's final answer or
  the error string); \<open>Inr\<close> is the context with which the loop ends. The clock is read
  once before each step, and the step runs in the world the reading leaves.

  A reading of the clock is a double, given as the real number it denotes. The elapsed
  time \<^verbatim>\<open>time.time() - start_time\<close> is the difference of two doubles as Python
  computes it, which rounds: that subtraction is the parameter \<open>float_sub\<close>. Python
  compares the resulting float with the integer timeout exactly.
\<close>

definition timed_out :: string where
  "timed_out = ''Operation timed out. The process took too long to complete.''"

fun run_steps :: "'w clock \<Rightarrow> (real \<Rightarrow> real \<Rightarrow> real) \<Rightarrow> real \<Rightarrow> int \<Rightarrow> string \<Rightarrow> ('w step_func \<times> agent) list \<Rightarrow> message list \<Rightarrow> 'w \<Rightarrow> (string + message list) \<times> 'w" where
  "run_steps time_time float_sub start_time timeout task [] context w = (Inr context, w)"
| "run_steps time_time float_sub start_time timeout task ((step_func, agent) # steps) context w =
     (case time_time w of (now, w1) \<Rightarrow>
        if float_sub now start_time > real_of_int timeout then (Inl timed_out, w1)
        else (case step_func agent task context w1 of
                (Inl e, w2) \<Rightarrow> (Inl (''Error during collaboration: '' @ str_exn e), w2)
              | (Inr (Final result), w2) \<Rightarrow> (Inl result, w2)
              | (Inr (Context result), w2) \<Rightarrow>
                  run_steps time_time float_sub start_time timeout task steps result w2))"

text \<open>
  \<^verbatim>\<open>solve\<close> over a given list of steps: read the start time, run the loop from the
  empty context, and after the loop return \<^verbatim>\<open>context[-1]["content"]\<close>, which
  raises on an empty context.
\<close>

definition solve_steps :: "'w clock \<Rightarrow> (real \<Rightarrow> real \<Rightarrow> real) \<Rightarrow> ('w step_func \<times> agent) list \<Rightarrow> string \<Rightarrow> int \<Rightarrow> 'w \<Rightarrow> (exn + string) \<times> 'w" where
  "solve_steps time_time float_sub steps task timeout w =
     (case time_time w of (start_time, w1) \<Rightarrow>
        (case run_steps time_time float_sub start_time timeout task steps [] w1 of
           (Inl answer, w2) \<Rightarrow> (Inr answer, w2)
         | (Inr context, w2) \<Rightarrow> (last_content context, w2)))"

text \<open>The two agents and the five steps that \<^verbatim>\<open>HistoryDataCollaborationSystem\<close> fixes.\<close>

definition history_agent :: agent where
  "history_agent = \<lparr>name = ''Clio'', agent_role = ''History Research Specialist'',
     skills = [''deep knowledge of historical events'', ''understanding of historical contexts'',
               ''identifying historical trends'']\<rparr>"

definition data_agent :: agent where
  "data_agent = \<lparr>name = ''Data'', agent_role = ''Data Analysis Expert'',
     skills = [''interpreting numerical data'', ''statistical analysis'',
               ''data visualization description'']\<rparr>"

definition steps_of_solve :: "'w boundary \<Rightarrow> ('w step_func \<times> agent) list" where
  "steps_of_solve create =
     [(research_historical_context create, history_agent),
      (identify_data_needs create, data_agent),
      (provide_historical_data create, history_agent),
      (analyze_data create, data_agent),
      (synthesize_final_answer create, history_agent)]"

definition solve :: "'w clock \<Rightarrow> (real \<Rightarrow> real \<Rightarrow> real) \<Rightarrow> 'w boundary \<Rightarrow> string \<Rightarrow> int \<Rightarrow> 'w \<Rightarrow> (exn + string) \<times> 'w" where
  "solve time_time float_sub create task timeout w =
     solve_steps time_time float_sub (steps_of_solve create) task timeout w"

text \<open>
  A run of the loop over given steps in which, before every step, the elapsed time
  does not exceed the timeout, and every step returns the context with entries
  appended to it (it neither raises nor returns a string). The last two arguments
  are the context and the world with which the loop ends.
\<close>

inductive clean_run :: "'w clock \<Rightarrow> (real \<Rightarrow> real \<Rightarrow> real) \<Rightarrow> real \<Rightarrow> int \<Rightarrow> string \<Rightarrow> ('w step_func \<times> agent) list \<Rightarrow> message list \<Rightarrow> 'w \<Rightarrow> message list \<Rightarrow> 'w \<Rightarrow> bool"
  for time_time :: "'w clock" and float_sub :: "real \<Rightarrow> real \<Rightarrow> real" and start_time :: real
    and timeout :: int and task :: string where
  finished: "clean_run time_time float_sub start_time timeout task [] context w context w"
| appended: "time_time w = (now, w1) \<Longrightarrow> \<not> float_sub now start_time > real_of_int timeout \<Longrightarrow>
     step_func agent task context w1 = (Inr (Context (context @ added)), w2) \<Longrightarrow> added \<noteq> [] \<Longrightarrow>
     clean_run time_time float_sub start_time timeout task steps (context @ added) w2 context' w' \<Longrightarrow>
     clean_run time_time float_sub start_time timeout task ((step_func, agent) # steps) context w context' w'"

subsection \<open>A scripted world\<close>

text \<open>
  A world for running the system on concrete inputs: the readings the clock will
  give, in whole seconds, the outcomes the remote model call will have, in order, and
  the number of remote calls made so far. Every step makes its remote call, if any,
  as the last thing it can fail at, so \<open>remote_calls\<close> counts the steps that got that
  far.

  The readings of the runs below are small whole numbers. Such numbers are doubles,
  and so is the difference of two of them, so the subtraction of doubles computes it
  without rounding: on the readings of this clock it is \<open>script_sub\<close>.
\<close>

record script =
  readings :: "int list"
  replies :: "(exn + string) list"
  remote_calls :: nat

definition script_time :: "script clock" where
  "script_time w =
     (case readings w of [] \<Rightarrow> (0, w) | r # rs \<Rightarrow> (real_of_int r, w\<lparr>readings := rs\<rparr>))"

definition script_sub :: "real \<Rightarrow> real \<Rightarrow> real" where
  "script_sub now start_time = now - start_time"

definition script_create :: "script boundary" where
  "script_create messages w =
     (case replies w of
        [] \<Rightarrow> (Inl (Error ''no reply''), w\<lparr>remote_calls := Suc (remote_calls w)\<rparr>)
      | r # rs \<Rightarrow> (r, w\<lparr>replies := rs, remote_calls := Suc (remote_calls w)\<rparr>))"

text \<open>
  A stand-in for Python's \<^verbatim>\<open>str\<close> of a stored pair, for running \<^verbatim>\<open>chat\<close> on
  concrete inputs: the two contents between brackets.
\<close>

definition script_str :: "message list \<Rightarrow> string" where
  "script_str pair = ''['' @ join '', '' (map content pair) @ '']''"

text \<open>A remote call that answers with the content of the last message it is sent.\<close>

definition echo :: "message list \<Rightarrow> exn + string" where
  "echo messages = (if messages = [] then Inl IndexError else Inr (content (last messages)))"

section \<open>Properties of the long-term store\<close>

lemma last_five_length: "length (last_five xs) \<le> 5"
  by (simp add: last_five_def)

lemma last_five_short: "length xs \<le> 5 \<Longrightarrow> last_five xs = xs"
  by (simp add: last_five_def)

lemma last_five_append: "last_five (last_five xs @ ys) = last_five (xs @ ys)"
proof (cases "length xs \<le> 5")
  case True
  then show ?thesis by (simp add: last_five_short)
next
  case False
  define k where "k = length xs - 5"
  have eq: "last_five xs @ ys = drop k (xs @ ys)"
    using False by (simp add: last_five_def k_def)
  have len: "length (drop k (xs @ ys)) - 5 + k = length (xs @ ys) - 5"
    using False by (simp add: k_def)
  have "last_five (last_five xs @ ys) =
          drop (length (drop k (xs @ ys)) - 5) (drop k (xs @ ys))"
    by (simp only: eq last_five_def [of "drop k (xs @ ys)"])
  also have "\<dots> = drop (length (xs @ ys) - 5) (xs @ ys)"
    by (simp only: drop_drop len)
  finally show ?thesis by (simp only: last_five_def)
qed

text \<open>What one call does to the entries of every session.\<close>

lemma long_term_of_update:
  "long_term_of (update_long_term_memory sid input_text output_text s) session_id =
     (if session_id = sid
      then last_five (long_term_of s sid @
             (if length input_text > 20 then [turn_pair input_text output_text] else []))
      else long_term_of s session_id)"
  by (simp add: update_long_term_memory_def long_term_of_def get_or_empty_def Let_def
      turn_pair_def last_five_def split: option.splits)

lemma long_term_memory_update_other:
  "session_id \<noteq> sid \<Longrightarrow>
   long_term_memory (update_long_term_memory sid input_text output_text s) session_id =
     long_term_memory s session_id"
  by (simp add: update_long_term_memory_def Let_def)

lemma long_term_memory_update_dom:
  "long_term_memory (update_long_term_memory sid input_text output_text s) sid \<noteq> None"
  by (simp add: update_long_term_memory_def Let_def)

lemma chat_store_update:
  "chat_store (update_long_term_memory sid input_text output_text s) = chat_store s"
  by (simp add: update_long_term_memory_def Let_def)

text \<open>
  A store whose entries for the session number at most five holds, after any calls,
  the last five of its old entries followed by the admitted pairs.
\<close>

lemma long_term_of_run:
  "length (long_term_of s session_id) \<le> 5 \<Longrightarrow>
   long_term_of (run_updates calls s) session_id =
     last_five (long_term_of s session_id @ admitted session_id calls)"
proof (induction calls arbitrary: s)
  case Nil
  then show ?case by (simp add: last_five_short)
next
  case (Cons c calls)
  obtain sid i out where c: "c = (sid, i, out)" by (cases c)
  let ?s1 = "update_long_term_memory sid i out s"
  have len: "length (long_term_of ?s1 session_id) \<le> 5"
    using Cons.prems by (simp add: long_term_of_update last_five_length)
  have "long_term_of (run_updates (c # calls) s) session_id =
          last_five (long_term_of ?s1 session_id @ admitted session_id calls)"
    using Cons.IH [OF len] by (simp add: c)
  also have "\<dots> = last_five (long_term_of s session_id @ admitted session_id (c # calls))"
    using Cons.prems
    by (simp add: c long_term_of_update last_five_append last_five_short)
  finally show ?case .
qed

lemma long_term_of_empty: "long_term_of empty_memory session_id = []"
  by (simp add: long_term_of_def empty_memory_def get_or_empty_def)

lemma long_term_of_reachable:
  "long_term_of (run_updates calls empty_memory) session_id =
     last_five (admitted session_id calls)"
  using long_term_of_run [of empty_memory session_id calls]
  by (simp add: long_term_of_empty)

text \<open>
  C6: after a call of \<^verbatim>\<open>update_long_term_memory\<close> the long-term store of the
  session it was called for holds at most five pairs, whatever the store held before;
  and after any sequence of calls, starting with the empty stores, every session's
  long-term store holds at most five pairs.
\<close>

theorem long_term_size_bound:
  "length (long_term_of (update_long_term_memory sid input_text output_text s) sid) \<le> 5 \<and>
   length (long_term_of (run_updates calls empty_memory) session_id) \<le> 5"
  by (simp add: long_term_of_update long_term_of_reachable last_five_length)

lemma admitted_provenance:
  "p \<in> set (admitted session_id calls) \<Longrightarrow>
   \<exists>i out. (session_id, i, out) \<in> set calls \<and> 20 < length i \<and> p = turn_pair i out"
proof (induction calls)
  case Nil
  then show ?case by simp
next
  case (Cons c calls)
  obtain sid i out where c: "c = (sid, i, out)" by (cases c)
  show ?case
  proof (cases "sid = session_id \<and> 20 < length i \<and> p = turn_pair i out")
    case True
    then show ?thesis by (auto simp: c)
  next
    case False
    then have "p \<in> set (admitted session_id calls)"
      using Cons.prems by (auto simp: c split: if_splits)
    then show ?thesis using Cons.IH by auto
  qed
qed

lemma set_last_five: "set (last_five xs) \<subseteq> set xs"
  by (simp add: last_five_def set_drop_subset)

text \<open>
  C4: in every state that calls of \<^verbatim>\<open>update_long_term_memory\<close> lead to from the
  empty stores, a call appends the pair of its input and output to the session's
  long-term store (and then keeps the last five) if the input is longer than 20
  characters, and leaves the store's list as it is if the input has 20 characters or
  fewer. Whatever the sequence of calls, every entry of a session's long-term store is
  the pair of a call for that session whose input is longer than 20 characters, so
  that no user message of 20 characters or fewer is in the store.
\<close>

theorem long_term_admission:
  "(20 < length input_text \<longrightarrow>
      long_term_of (update_long_term_memory sid input_text output_text (run_updates calls empty_memory)) sid =
        last_five (long_term_of (run_updates calls empty_memory) sid @ [turn_pair input_text output_text])) \<and>
   (length input_text \<le> 20 \<longrightarrow>
      long_term_of (update_long_term_memory sid input_text output_text (run_updates calls empty_memory)) sid =
        long_term_of (run_updates calls empty_memory) sid) \<and>
   (\<forall>p \<in> set (long_term_of (run_updates calls empty_memory) session_id).
      \<exists>i out. (session_id, i, out) \<in> set calls \<and> 20 < length i \<and> p = turn_pair i out) \<and>
   (\<forall>p \<in> set (long_term_of (run_updates calls empty_memory) session_id).
      \<forall>m \<in> set p. role m = ''user'' \<longrightarrow> 20 < length (content m))"
proof (intro conjI impI ballI)
  assume "20 < length input_text"
  then show "long_term_of (update_long_term_memory sid input_text output_text (run_updates calls empty_memory)) sid =
        last_five (long_term_of (run_updates calls empty_memory) sid @ [turn_pair input_text output_text])"
    by (simp add: long_term_of_update)
next
  assume "length input_text \<le> 20"
  then show "long_term_of (update_long_term_memory sid input_text output_text (run_updates calls empty_memory)) sid =
        long_term_of (run_updates calls empty_memory) sid"
    by (simp add: long_term_of_update long_term_of_reachable last_five_short last_five_length)
next
  fix p
  assume "p \<in> set (long_term_of (run_updates calls empty_memory) session_id)"
  then have "p \<in> set (admitted session_id calls)"
    using set_last_five [of "admitted session_id calls"] by (auto simp: long_term_of_reachable)
  then show "\<exists>i out. (session_id, i, out) \<in> set calls \<and> 20 < length i \<and> p = turn_pair i out"
    by (rule admitted_provenance)
next
  fix p m
  assume "p \<in> set (long_term_of (run_updates calls empty_memory) session_id)"
    and m: "m \<in> set p" "role m = ''user''"
  then have "p \<in> set (admitted session_id calls)"
    using set_last_five [of "admitted session_id calls"] by (auto simp: long_term_of_reachable)
  then obtain i out where "20 < length i" "p = turn_pair i out"
    using admitted_provenance by blast
  with m show "20 < length (content m)"
    by (auto simp: turn_pair_def)
qed

theorem long_term_admission_witness:
  "long_term_of (run_updates [(''s1'', ''Hi'', ''Hello''), (''s1'', ''Hello! My name is Alice.'', ''Hi Alice'')] empty_memory) ''s1'' =
     [turn_pair ''Hello! My name is Alice.'' ''Hi Alice''] \<and>
   (\<exists>i out. (''s1'', i, out) \<in> set [(''s1'', ''Hi'', ''Hello''), (''s1'', ''Hello! My name is Alice.'', ''Hi Alice'')] \<and>
      20 < length i \<and> turn_pair ''Hello! My name is Alice.'' ''Hi Alice'' = turn_pair i out) \<and>
   long_term_of (update_long_term_memory ''s1'' ''I love sunny days.'' ''Great''
      (run_updates [(''s1'', ''Hi'', ''Hello''), (''s1'', ''Hello! My name is Alice.'', ''Hi Alice'')] empty_memory)) ''s1'' =
     [turn_pair ''Hello! My name is Alice.'' ''Hi Alice''] \<and>
   long_term_of (update_long_term_memory ''s1'' ''Do you remember my name?'' ''Yes''
      (run_updates [(''s1'', ''Hi'', ''Hello''), (''s1'', ''Hello! My name is Alice.'', ''Hi Alice'')] empty_memory)) ''s1'' =
     [turn_pair ''Hello! My name is Alice.'' ''Hi Alice'', turn_pair ''Do you remember my name?'' ''Yes'']"
proof -
  let ?calls = "[(''s1'', ''Hi'', ''Hello''), (''s1'', ''Hello! My name is Alice.'', ''Hi Alice'')]"
  have store: "long_term_of (run_updates ?calls empty_memory) ''s1'' =
      [turn_pair ''Hello! My name is Alice.'' ''Hi Alice'']"
    by (simp add: long_term_of_update long_term_of_empty last_five_def)
  have short: "length ''I love sunny days.'' \<le> 20" by simp
  have long: "20 < length ''Do you remember my name?''" by simp
  note thm1 = long_term_admission [of "''I love sunny days.''" "''s1''" "''Great''" ?calls "''s1''"]
  note thm2 = long_term_admission [of "''Do you remember my name?''" "''s1''" "''Yes''" ?calls "''s1''"]
  from thm1 short have a: "long_term_of (update_long_term_memory ''s1'' ''I love sunny days.'' ''Great''
      (run_updates ?calls empty_memory)) ''s1'' = long_term_of (run_updates ?calls empty_memory) ''s1''"
    by blast
  from thm2 long have b: "long_term_of (update_long_term_memory ''s1'' ''Do you remember my name?'' ''Yes''
      (run_updates ?calls empty_memory)) ''s1'' =
      last_five (long_term_of (run_updates ?calls empty_memory) ''s1'' @ [turn_pair ''Do you remember my name?'' ''Yes''])"
    by blast
  from thm1 have "\<forall>p \<in> set (long_term_of (run_updates ?calls empty_memory) ''s1'').
      \<exists>i out. (''s1'', i, out) \<in> set ?calls \<and> 20 < length i \<and> p = turn_pair i out"
    by blast
  then have c: "\<exists>i out. (''s1'', i, out) \<in> set ?calls \<and> 20 < length i \<and>
      turn_pair ''Hello! My name is Alice.'' ''Hi Alice'' = turn_pair i out"
    unfolding store by simp
  show ?thesis
    using a b c store by (simp add: last_five_def)
qed

text \<open>
  C5: six calls for one session with inputs longer than 20 characters, on any store,
  leave the session's long-term store holding the pairs of the second to the sixth
  call, in call order: the pair of the first call is the one evicted.
\<close>

theorem long_term_fifo:
  assumes "20 < length i1" "20 < length i2" "20 < length i3" "20 < length i4" "20 < length i5" "20 < length i6"
  shows "long_term_of (run_updates [(sid, i1, o1), (sid, i2, o2), (sid, i3, o3), (sid, i4, o4), (sid, i5, o5), (sid, i6, o6)] s) sid =
    [turn_pair i2 o2, turn_pair i3 o3, turn_pair i4 o4, turn_pair i5 o5, turn_pair i6 o6]"
  using assms by (simp add: long_term_of_update last_five_append) (simp add: last_five_def)

theorem long_term_fifo_witness:
  "long_term_of (run_updates
     [(''s'', ''aaaaaaaaaaaaaaaaaaaaa'', ''1''), (''s'', ''bbbbbbbbbbbbbbbbbbbbb'', ''2''),
      (''s'', ''ccccccccccccccccccccc'', ''3''), (''s'', ''ddddddddddddddddddddd'', ''4''),
      (''s'', ''eeeeeeeeeeeeeeeeeeeee'', ''5''), (''s'', ''fffffffffffffffffffff'', ''6'')] empty_memory) ''s'' =
   [turn_pair ''bbbbbbbbbbbbbbbbbbbbb'' ''2'', turn_pair ''ccccccccccccccccccccc'' ''3'',
    turn_pair ''ddddddddddddddddddddd'' ''4'', turn_pair ''eeeeeeeeeeeeeeeeeeeee'' ''5'',
    turn_pair ''fffffffffffffffffffff'' ''6'']"
  by (rule long_term_fifo) simp_all

text \<open>
  C10: a call with an input of at most 20 characters, on a store holding at most five
  pairs for the session, leaves the session's long-term list as it was, the entry
  existing afterwards (as the empty list if the session had none). Every store that
  calls lead to from the empty stores is such a store. A call for one session never
  changes the long-term entry of another session.
\<close>

theorem short_input_frame:
  "(length input_text \<le> 20 \<and> length (long_term_of s sid) \<le> 5 \<longrightarrow>
      long_term_memory (update_long_term_memory sid input_text output_text s) sid =
        Some (long_term_of s sid)) \<and>
   (length input_text \<le> 20 \<longrightarrow>
      long_term_memory (update_long_term_memory sid input_text output_text (run_updates calls empty_memory)) sid =
        Some (long_term_of (run_updates calls empty_memory) sid)) \<and>
   (session_id \<noteq> sid \<longrightarrow>
      long_term_memory (update_long_term_memory sid input_text output_text s) session_id =
        long_term_memory s session_id)"
proof -
  have kept: "long_term_memory (update_long_term_memory sid input_text output_text s') sid =
      Some (long_term_of s' sid)"
    if "length input_text \<le> 20" and "length (long_term_of s' sid) \<le> 5" for s'
  proof -
    have "long_term_of (update_long_term_memory sid input_text output_text s') sid =
        long_term_of s' sid"
      using that by (simp add: long_term_of_update last_five_short)
    moreover have "long_term_memory (update_long_term_memory sid input_text output_text s') sid \<noteq> None"
      by (rule long_term_memory_update_dom)
    ultimately show ?thesis
      by (auto simp: long_term_of_def get_or_empty_def)
  qed
  have bound: "length (long_term_of (run_updates calls empty_memory) sid) \<le> 5"
    by (simp add: long_term_of_reachable last_five_length)
  show ?thesis
    using kept [of s] kept [OF _ bound] long_term_memory_update_other [of session_id sid input_text output_text s]
    by blast
qed

theorem short_input_frame_witness:
  "long_term_memory (update_long_term_memory ''s1'' ''Hi'' ''Hello''
     \<lparr>chat_store = [''s1'' \<mapsto> [\<lparr>role = ''user'', content = ''Hi''\<rparr>]],
      long_term_memory = [''s2'' \<mapsto> [turn_pair ''Hello! My name is Alice.'' ''Hi Alice'']]\<rparr>) ''s1'' =
     Some [] \<and>
   long_term_memory (update_long_term_memory ''s1'' ''Hi'' ''Hello''
     \<lparr>chat_store = [''s1'' \<mapsto> [\<lparr>role = ''user'', content = ''Hi''\<rparr>]],
      long_term_memory = [''s2'' \<mapsto> [turn_pair ''Hello! My name is Alice.'' ''Hi Alice'']]\<rparr>) ''s2'' =
     Some [turn_pair ''Hello! My name is Alice.'' ''Hi Alice''] \<and>
   long_term_memory (update_long_term_memory ''s1'' ''Hi'' ''Hello''
     (run_updates [(''s1'', ''Hello! My name is Alice.'', ''Hi Alice'')] empty_memory)) ''s1'' =
     Some [turn_pair ''Hello! My name is Alice.'' ''Hi Alice'']"
proof -
  let ?s = "\<lparr>chat_store = [''s1'' \<mapsto> [\<lparr>role = ''user'', content = ''Hi''\<rparr>]],
      long_term_memory = [''s2'' \<mapsto> [turn_pair ''Hello! My name is Alice.'' ''Hi Alice'']]\<rparr>"
  let ?calls = "[(''s1'', ''Hello! My name is Alice.'', ''Hi Alice'')]"
  have short: "length ''Hi'' \<le> 20"
    by simp
  have other: "''s2'' \<noteq> ''s1''"
    by simp
  have a: "long_term_of ?s ''s1'' = []"
    by (simp add: long_term_of_def get_or_empty_def)
  have b: "long_term_of (run_updates ?calls empty_memory) ''s1'' =
      [turn_pair ''Hello! My name is Alice.'' ''Hi Alice'']"
    by (simp add: long_term_of_update long_term_of_empty last_five_def)
  show ?thesis
    using short other a b
      short_input_frame [where input_text = "''Hi''" and sid = "''s1''" and output_text = "''Hello''"
        and s = ?s and calls = ?calls and session_id = "''s2''"]
    by simp
qed

section \<open>Properties of the conversational logic\<close>

lemma foldl_append_lines: "foldl (\<lambda>acc x. acc @ f x) acc xs = acc @ concat (map f xs)"
  by (induction xs arbitrary: acc) simp_all

lemma get_chat_history_fst: "fst (get_chat_history session_id s) = history_of s session_id"
  by (simp add: get_chat_history_def history_of_def get_or_empty_def Let_def)

lemma history_of_get_chat_history:
  "history_of (snd (get_chat_history session_id s)) sid = history_of s sid"
  by (simp add: get_chat_history_def history_of_def get_or_empty_def Let_def)

lemma long_term_memory_get_chat_history:
  "long_term_memory (snd (get_chat_history session_id s)) = long_term_memory s"
  by (simp add: get_chat_history_def Let_def)

lemma chat_cases:
  "chat py_str create input_text session_id s =
     (case create [\<lparr>role = ''system'', content = ''You are a helpful assistant.''\<rparr>,
                   \<lparr>role = ''user'', content = chat_prompt py_str input_text session_id s\<rparr>] of
        Inl e \<Rightarrow> (Inl e, snd (get_chat_history session_id s))
      | Inr response \<Rightarrow>
          (Inr response,
           update_long_term_memory session_id input_text response
             (s\<lparr>chat_store := (chat_store s)(session_id \<mapsto> history_of s session_id @
                [\<lparr>role = ''user'', content = input_text\<rparr>,
                 \<lparr>role = ''assitant'', content = response\<rparr>])\<rparr>)))"
  by (simp add: chat_def chat_prompt_def generate_response_def get_chat_history_def
      history_of_def get_or_empty_def Let_def split: sum.splits option.splits)

lemma history_of_update_long_term:
  "history_of (update_long_term_memory sid input_text output_text s) session_id = history_of s session_id"
  by (simp add: history_of_def chat_store_update)

text \<open>
  C8: \<^verbatim>\<open>chat\<close> sends the remote call the system message and one user message, and
  returns or raises what the call does. The content of the user message, the prompt
  that \<^verbatim>\<open>chat\<close> composes, is the fixed instruction line, then the long-term memory
  line (the rendered long-term memory of the session, or a placeholder line when the
  rendering is empty), then one line per turn of the session's history in the order
  of the history, then the line of the new user input, last.
\<close>

theorem chat_prompt_order:
  "fst (chat py_str create input_text session_id s) =
     create [\<lparr>role = ''system'', content = ''You are a helpful assistant.''\<rparr>,
             \<lparr>role = ''user'', content =
                (''You are a helpful AI assistant. Use the information from long-term memory if relevant.'' @ nl) @
                (if get_long_term_memory py_str session_id s = [] then ''No long-term memory yet.'' @ nl
                 else ''Long-term memory: '' @ get_long_term_memory py_str session_id s @ nl) @
                concat (map (\<lambda>message. role message @ '': '' @ content message @ nl)
                  (history_of s session_id)) @
                (''user: '' @ input_text @ nl)\<rparr>]"
proof -
  have "build_prompt (get_long_term_memory py_str session_id s) (history_of s session_id) input_text =
      (''You are a helpful AI assistant. Use the information from long-term memory if relevant.'' @ nl) @
      (if get_long_term_memory py_str session_id s = [] then ''No long-term memory yet.'' @ nl
       else ''Long-term memory: '' @ get_long_term_memory py_str session_id s @ nl) @
      concat (map (\<lambda>message. role message @ '': '' @ content message @ nl) (history_of s session_id)) @
      (''user: '' @ input_text @ nl)"
    by (simp add: build_prompt_def Let_def foldl_append_lines)
  moreover have "fst (chat py_str create input_text session_id s) =
      create [\<lparr>role = ''system'', content = ''You are a helpful assistant.''\<rparr>,
              \<lparr>role = ''user'', content =
                 build_prompt (get_long_term_memory py_str session_id s) (history_of s session_id) input_text\<rparr>]"
    by (simp add: chat_def generate_response_def Let_def case_prod_beta get_chat_history_fst
        split: sum.splits)
  ultimately show ?thesis by simp
qed

theorem chat_prompt_order_witness:
  "fst (chat script_str echo ''Do you remember my name?'' ''user_123''
     \<lparr>chat_store = [''user_123'' \<mapsto>
        [\<lparr>role = ''user'', content = ''Hello! My name is Alice.''\<rparr>,
         \<lparr>role = ''assitant'', content = ''Hi Alice''\<rparr>,
         \<lparr>role = ''user'', content = ''What is the weather like today?''\<rparr>,
         \<lparr>role = ''assitant'', content = ''Sunny''\<rparr>]],
      long_term_memory = [''user_123'' \<mapsto>
        [turn_pair ''Hello! My name is Alice.'' ''Hi Alice'',
         turn_pair ''What is the weather like today?'' ''Sunny'']]\<rparr>) =
   Inr (''You are a helpful AI assistant. Use the information from long-term memory if relevant.'' @ nl @
        ''Long-term memory: [Hello! My name is Alice., Hi Alice]. [What is the weather like today?, Sunny]'' @ nl @
        ''user: Hello! My name is Alice.'' @ nl @
        ''assitant: Hi Alice'' @ nl @
        ''user: What is the weather like today?'' @ nl @
        ''assitant: Sunny'' @ nl @
        ''user: Do you remember my name?'' @ nl)"
  using chat_prompt_order [where py_str = script_str and create = echo
      and input_text = "''Do you remember my name?''" and session_id = "''user_123''"
      and s = "\<lparr>chat_store = [''user_123'' \<mapsto>
        [\<lparr>role = ''user'', content = ''Hello! My name is Alice.''\<rparr>,
         \<lparr>role = ''assitant'', content = ''Hi Alice''\<rparr>,
         \<lparr>role = ''user'', content = ''What is the weather like today?''\<rparr>,
         \<lparr>role = ''assitant'', content = ''Sunny''\<rparr>]],
      long_term_memory = [''user_123'' \<mapsto>
        [turn_pair ''Hello! My name is Alice.'' ''Hi Alice'',
         turn_pair ''What is the weather like today?'' ''Sunny'']]\<rparr>"]
  by (simp add: echo_def script_str_def get_long_term_memory_def history_of_def get_or_empty_def
      turn_pair_def)

lemma history_of_after_get_chat_history:
  "history_of (snd (get_chat_history session_id s)) = history_of s"
  by (rule ext) (simp add: history_of_get_chat_history)

text \<open>
  C1: when the remote call inside \<^verbatim>\<open>chat\<close> returns a response, \<^verbatim>\<open>chat\<close> returns it
  and the session's history grows by exactly two entries, the turn holding the user's
  input followed by the turn holding the response. When the remote call raises,
  \<^verbatim>\<open>chat\<close> raises the same exception, and the history of every session and the
  long-term store are as before: no user turn is recorded.
\<close>

theorem chat_history_growth:
  "(create [\<lparr>role = ''system'', content = ''You are a helpful assistant.''\<rparr>,
            \<lparr>role = ''user'', content = chat_prompt py_str input_text session_id s\<rparr>] = Inr response \<longrightarrow>
      fst (chat py_str create input_text session_id s) = Inr response \<and>
      length (history_of (snd (chat py_str create input_text session_id s)) session_id) =
        length (history_of s session_id) + 2 \<and>
      (\<exists>user_turn assistant_turn.
         history_of (snd (chat py_str create input_text session_id s)) session_id =
           history_of s session_id @ [user_turn, assistant_turn] \<and>
         content user_turn = input_text \<and> content assistant_turn = response)) \<and>
   (create [\<lparr>role = ''system'', content = ''You are a helpful assistant.''\<rparr>,
            \<lparr>role = ''user'', content = chat_prompt py_str input_text session_id s\<rparr>] = Inl e \<longrightarrow>
      fst (chat py_str create input_text session_id s) = Inl e \<and>
      history_of (snd (chat py_str create input_text session_id s)) = history_of s \<and>
      long_term_memory (snd (chat py_str create input_text session_id s)) = long_term_memory s)"
  by (simp add: chat_cases history_of_update_long_term history_of_after_get_chat_history
      long_term_memory_get_chat_history)
     (simp add: history_of_def get_or_empty_def)

theorem chat_history_growth_witness:
  "fst (chat (\<lambda>pair. ''[]'') (\<lambda>messages. Inr ''Nice to meet you, Alice!'') ''My name is Alice.'' ''user_123''
     \<lparr>chat_store = [''user_123'' \<mapsto> [\<lparr>role = ''user'', content = ''Hi''\<rparr>,
                                       \<lparr>role = ''assitant'', content = ''Hello''\<rparr>]],
      long_term_memory = Map.empty\<rparr>) = Inr ''Nice to meet you, Alice!'' \<and>
   length (history_of (snd (chat (\<lambda>pair. ''[]'') (\<lambda>messages. Inr ''Nice to meet you, Alice!'')
     ''My name is Alice.'' ''user_123''
     \<lparr>chat_store = [''user_123'' \<mapsto> [\<lparr>role = ''user'', content = ''Hi''\<rparr>,
                                       \<lparr>role = ''assitant'', content = ''Hello''\<rparr>]],
      long_term_memory = Map.empty\<rparr>)) ''user_123'') = 4 \<and>
   fst (chat (\<lambda>pair. ''[]'') (\<lambda>messages. Inl (Error ''rate limit exceeded'')) ''My name is Alice.'' ''user_123''
     \<lparr>chat_store = [''user_123'' \<mapsto> [\<lparr>role = ''user'', content = ''Hi''\<rparr>,
                                       \<lparr>role = ''assitant'', content = ''Hello''\<rparr>]],
      long_term_memory = Map.empty\<rparr>) = Inl (Error ''rate limit exceeded'') \<and>
   history_of (snd (chat (\<lambda>pair. ''[]'') (\<lambda>messages. Inl (Error ''rate limit exceeded''))
     ''My name is Alice.'' ''user_123''
     \<lparr>chat_store = [''user_123'' \<mapsto> [\<lparr>role = ''user'', content = ''Hi''\<rparr>,
                                       \<lparr>role = ''assitant'', content = ''Hello''\<rparr>]],
      long_term_memory = Map.empty\<rparr>)) ''user_123'' =
     [\<lparr>role = ''user'', content = ''Hi''\<rparr>, \<lparr>role = ''assitant'', content = ''Hello''\<rparr>]"
proof -
  let ?s = "\<lparr>chat_store = [''user_123'' \<mapsto> [\<lparr>role = ''user'', content = ''Hi''\<rparr>,
                                       \<lparr>role = ''assitant'', content = ''Hello''\<rparr>]],
      long_term_memory = Map.empty\<rparr>"
  have old: "history_of ?s ''user_123'' =
      [\<lparr>role = ''user'', content = ''Hi''\<rparr>, \<lparr>role = ''assitant'', content = ''Hello''\<rparr>]"
    by (simp add: history_of_def get_or_empty_def)
  show ?thesis
    using old
      chat_history_growth [where create = "\<lambda>messages. Inr ''Nice to meet you, Alice!''"
        and py_str = "\<lambda>pair. ''[]''" and input_text = "''My name is Alice.''"
        and session_id = "''user_123''" and s = ?s and response = "''Nice to meet you, Alice!''"]
      chat_history_growth [where create = "\<lambda>messages. Inl (Error ''rate limit exceeded'')"
        and py_str = "\<lambda>pair. ''[]''" and input_text = "''My name is Alice.''"
        and session_id = "''user_123''" and s = ?s and e = "Error ''rate limit exceeded''"]
    by simp
qed

text \<open>
  C9: of the two entries that a successful \<^verbatim>\<open>chat\<close> appends to the history, the
  first has the role \<^verbatim>\<open>user\<close> and the second the role \<^verbatim>\<open>assitant\<close>, spelt so;
  neither has the role \<^verbatim>\<open>assistant\<close>.
\<close>

theorem chat_roles:
  "create [\<lparr>role = ''system'', content = ''You are a helpful assistant.''\<rparr>,
           \<lparr>role = ''user'', content = chat_prompt py_str input_text session_id s\<rparr>] = Inr response \<Longrightarrow>
   map role (drop (length (history_of s session_id))
      (history_of (snd (chat py_str create input_text session_id s)) session_id)) =
     [''user'', ''assitant''] \<and>
   ''assistant'' \<notin> set (map role (drop (length (history_of s session_id))
      (history_of (snd (chat py_str create input_text session_id s)) session_id)))"
  by (simp add: chat_cases history_of_update_long_term)
     (simp add: history_of_def get_or_empty_def)

theorem chat_roles_witness:
  "map role (drop 2 (history_of (snd (chat (\<lambda>pair. ''[]'') (\<lambda>messages. Inr ''Nice to meet you, Alice!'')
     ''My name is Alice.'' ''user_123''
     \<lparr>chat_store = [''user_123'' \<mapsto> [\<lparr>role = ''user'', content = ''Hi''\<rparr>,
                                       \<lparr>role = ''assitant'', content = ''Hello''\<rparr>]],
      long_term_memory = Map.empty\<rparr>)) ''user_123'')) = [''user'', ''assitant'']"
proof -
  let ?s = "\<lparr>chat_store = [''user_123'' \<mapsto> [\<lparr>role = ''user'', content = ''Hi''\<rparr>,
                                       \<lparr>role = ''assitant'', content = ''Hello''\<rparr>]],
      long_term_memory = Map.empty\<rparr>"
  have old: "length (history_of ?s ''user_123'') = 2"
    by (simp add: history_of_def get_or_empty_def)
  show ?thesis
    using old
      chat_roles [where create = "\<lambda>messages. Inr ''Nice to meet you, Alice!''"
        and py_str = "\<lambda>pair. ''[]''" and input_text = "''My name is Alice.''"
        and session_id = "''user_123''" and s = ?s and response = "''Nice to meet you, Alice!''"]
    by simp
qed

section \<open>Properties of the collaboration system\<close>

lemma run_steps_append:
  "run_steps time_time float_sub start_time timeout task (earlier @ later) ctx w =
     (case run_steps time_time float_sub start_time timeout task earlier ctx w of
        (Inl answer, w') \<Rightarrow> (Inl answer, w')
      | (Inr ctx', w') \<Rightarrow> run_steps time_time float_sub start_time timeout task later ctx' w')"
proof (induction earlier arbitrary: ctx w)
  case Nil
  show ?case by simp
next
  case (Cons step earlier)
  obtain step_func agent where step: "step = (step_func, agent)" by (cases step)
  show ?case
    by (simp add: step Cons.IH split: prod.splits sum.splits step_result.splits)
qed

lemmas script_defs = script_time_def script_sub_def script_create_def process_def last_content_def
  research_historical_context_def identify_data_needs_def provide_historical_data_def
  analyze_data_def synthesize_final_answer_def

text \<open>
  C2: when the steps before it have returned contexts, the timeout check before it
  passes, and a step raises an exception, \<^verbatim>\<open>solve\<close> returns the string
  \<^verbatim>\<open>Error during collaboration: \<close> followed by the exception's message, and it
  ends in the world that the raising step left: the steps after it are not run,
  whatever they are.
\<close>

theorem solve_error_containment:
  assumes "time_time w0 = (start_time, w1)"
    and "run_steps time_time float_sub start_time timeout task earlier [] w1 = (Inr context, w2)"
    and "time_time w2 = (now, w3)"
    and "\<not> float_sub now start_time > real_of_int timeout"
    and "step_func agent task context w3 = (Inl e, w4)"
  shows "solve_steps time_time float_sub (earlier @ (step_func, agent) # later) task timeout w0 =
           (Inr (''Error during collaboration: '' @ str_exn e), w4)"
  using assms by (simp add: solve_steps_def run_steps_append)

theorem solve_error_containment_witness:
  "solve script_time script_sub script_create ''Why did Rome fall?'' 300
     \<lparr>readings = [100, 101, 102], replies = [Inr ''Rome'', Inl (Error ''rate limit exceeded'')],
      remote_calls = 0\<rparr> =
   (Inr ''Error during collaboration: rate limit exceeded'',
    \<lparr>readings = [], replies = [], remote_calls = 2\<rparr>)"
proof -
  let ?w0 = "\<lparr>readings = [100, 101, 102], replies = [Inr ''Rome'', Inl (Error ''rate limit exceeded'')],
      remote_calls = 0\<rparr>"
  let ?w1 = "\<lparr>readings = [101, 102], replies = [Inr ''Rome'', Inl (Error ''rate limit exceeded'')],
      remote_calls = 0\<rparr>"
  let ?w2 = "\<lparr>readings = [102], replies = [Inl (Error ''rate limit exceeded'')], remote_calls = Suc 0\<rparr>"
  let ?w3 = "\<lparr>readings = [], replies = [Inl (Error ''rate limit exceeded'')], remote_calls = Suc 0\<rparr>"
  let ?w4 = "\<lparr>readings = [], replies = [], remote_calls = 2\<rparr>"
  let ?c = "[\<lparr>role = ''assistant'', content = ''History Agent: Rome''\<rparr>]"
  have 1: "script_time ?w0 = (100, ?w1)"
    by (simp add: script_time_def)
  have 2: "run_steps script_time script_sub 100 300 ''Why did Rome fall?''
      [(research_historical_context script_create, history_agent)] [] ?w1 = (Inr ?c, ?w2)"
    by (simp add: script_defs)
  have 3: "script_time ?w2 = (102, ?w3)"
    by (simp add: script_time_def)
  have 4: "\<not> script_sub 102 100 > real_of_int 300"
    by (simp add: script_sub_def)
  have 5: "identify_data_needs script_create data_agent ''Why did Rome fall?'' ?c ?w3 =
      (Inl (Error ''rate limit exceeded''), ?w4)"
    by (simp add: script_defs)
  show ?thesis
    using solve_error_containment [where time_time = script_time and float_sub = script_sub
        and step_func = "identify_data_needs script_create" and agent = data_agent
        and later = "[(provide_historical_data script_create, history_agent),
             (analyze_data script_create, data_agent),
             (synthesize_final_answer script_create, history_agent)]", OF 1 2 3 4 5]
    by (simp add: solve_def steps_of_solve_def)
qed

text \<open>
  C3, as the code has it: \<^verbatim>\<open>solve\<close> reads the clock before each step, and when the
  elapsed time that it computes there, the difference of the two doubles, is strictly
  greater than the timeout, it returns the timeout string in the world that the
  reading left, running neither that step nor a later one. With a timeout of 0 this
  happens at the first step when the computed difference is positive.
\<close>

theorem solve_timeout_check:
  assumes "time_time w0 = (start_time, w1)"
    and "run_steps time_time float_sub start_time timeout task earlier [] w1 = (Inr context, w2)"
    and "time_time w2 = (now, w3)"
    and "float_sub now start_time > real_of_int timeout"
  shows "solve_steps time_time float_sub (earlier @ (step_func, agent) # later) task timeout w0 =
           (Inr timed_out, w3)"
  using assms by (simp add: solve_steps_def run_steps_append)

theorem solve_timeout_check_witness:
  "solve script_time script_sub script_create ''Why did Rome fall?'' 0
     \<lparr>readings = [100, 101], replies = [Inr ''Rome''], remote_calls = 0\<rparr> =
     (Inr timed_out, \<lparr>readings = [], replies = [Inr ''Rome''], remote_calls = 0\<rparr>) \<and>
   solve script_time script_sub script_create ''Why did Rome fall?'' 2
     \<lparr>readings = [100, 100, 103], replies = [Inr ''Rome'', Inr ''Census''], remote_calls = 0\<rparr> =
     (Inr timed_out, \<lparr>readings = [], replies = [Inr ''Census''], remote_calls = 1\<rparr>)"
proof -
  let ?rest = "[(provide_historical_data script_create, history_agent),
             (analyze_data script_create, data_agent),
             (synthesize_final_answer script_create, history_agent)]"
  let ?c = "[\<lparr>role = ''assistant'', content = ''History Agent: Rome''\<rparr>]"
  have a1: "script_time \<lparr>readings = [100, 101], replies = [Inr ''Rome''], remote_calls = 0\<rparr> =
      (100, \<lparr>readings = [101], replies = [Inr ''Rome''], remote_calls = 0\<rparr>)"
    by (simp add: script_time_def)
  have a2: "run_steps script_time script_sub 100 0 ''Why did Rome fall?'' [] []
      \<lparr>readings = [101], replies = [Inr ''Rome''], remote_calls = 0\<rparr> =
      (Inr [], \<lparr>readings = [101], replies = [Inr ''Rome''], remote_calls = 0\<rparr>)"
    by simp
  have a3: "script_time \<lparr>readings = [101], replies = [Inr ''Rome''], remote_calls = 0\<rparr> =
      (101, \<lparr>readings = [], replies = [Inr ''Rome''], remote_calls = 0\<rparr>)"
    by (simp add: script_time_def)
  have a4: "script_sub 101 100 > real_of_int 0"
    by (simp add: script_sub_def)
  have b1: "script_time \<lparr>readings = [100, 100, 103], replies = [Inr ''Rome'', Inr ''Census''], remote_calls = 0\<rparr> =
      (100, \<lparr>readings = [100, 103], replies = [Inr ''Rome'', Inr ''Census''], remote_calls = 0\<rparr>)"
    by (simp add: script_time_def)
  have b2: "run_steps script_time script_sub 100 2 ''Why did Rome fall?''
      [(research_historical_context script_create, history_agent)] []
      \<lparr>readings = [100, 103], replies = [Inr ''Rome'', Inr ''Census''], remote_calls = 0\<rparr> =
      (Inr ?c, \<lparr>readings = [103], replies = [Inr ''Census''], remote_calls = Suc 0\<rparr>)"
    by (simp add: script_defs)
  have b3: "script_time \<lparr>readings = [103], replies = [Inr ''Census''], remote_calls = Suc 0\<rparr> =
      (103, \<lparr>readings = [], replies = [Inr ''Census''], remote_calls = Suc 0\<rparr>)"
    by (simp add: script_time_def)
  have b4: "script_sub 103 100 > real_of_int 2"
    by (simp add: script_sub_def)
  show ?thesis
    using solve_timeout_check [where time_time = script_time and float_sub = script_sub
        and step_func = "research_historical_context script_create" and agent = history_agent
        and later = "(identify_data_needs script_create, data_agent) # ?rest", OF a1 a2 a3 a4]
      solve_timeout_check [where time_time = script_time and float_sub = script_sub
        and step_func = "identify_data_needs script_create" and agent = data_agent
        and later = ?rest, OF b1 b2 b3 b4]
    by (simp add: solve_def steps_of_solve_def)
qed

text \<open>
  With a timeout of 0 and a clock that gives the same reading at the start and at the
  first check, the elapsed time is 0, which is not greater than 0: the first step is
  invoked, and here its remote call fails, so the result is the error string.
\<close>

theorem timeout_zero_counterexample:
  "fst (solve script_time script_sub script_create ''Why did Rome fall?'' 0
     \<lparr>readings = [100, 100], replies = [Inl (Error ''connection refused'')], remote_calls = 0\<rparr>) =
     Inr ''Error during collaboration: connection refused'' \<and>
   remote_calls (snd (solve script_time script_sub script_create ''Why did Rome fall?'' 0
     \<lparr>readings = [100, 100], replies = [Inl (Error ''connection refused'')], remote_calls = 0\<rparr>)) = 1"
  by (simp add: solve_def steps_of_solve_def solve_steps_def script_defs)





lemma synthesize_final:
  "synthesize_final_answer create a task ctx w =
     (case process create a ''Based on all the historical context, data, and analysis, provide a comprehensive answer to the original task.'' (Some ctx) w of
        (Inl e, w') \<Rightarrow> (Inl e, w')
      | (Inr final_result, w') \<Rightarrow> (Inr (Final final_result), w'))"
  by (simp add: synthesize_final_answer_def)







text \<open>
  The loop of \<^verbatim>\<open>solve\<close> always ends by a \<^verbatim>\<open>return\<close> inside it, the fifth step
  returning a string or raising: the statement after the loop is never reached.
\<close>

lemma solve_loop_always_returns:
  "\<exists>answer w'. run_steps time_time float_sub start_time timeout task (steps_of_solve create) ctx w =
     (Inl answer, w')"
proof -
  have split: "steps_of_solve create =
      butlast (steps_of_solve create) @ [(synthesize_final_answer create, history_agent)]"
    by (simp add: steps_of_solve_def)
  have last_step: "\<exists>answer w'. run_steps time_time float_sub start_time timeout task
      [(synthesize_final_answer create, history_agent)] c v = (Inl answer, w')" for c v
    by (simp add: synthesize_final split: prod.splits sum.splits)
  show ?thesis
    by (subst split) (use last_step in \<open>auto simp: run_steps_append split: prod.splits sum.splits\<close>)
qed

lemma clean_run_run_steps:
  "clean_run time_time float_sub start_time timeout task steps ctx w ctx' w' \<Longrightarrow>
   run_steps time_time float_sub start_time timeout task steps ctx w = (Inr ctx', w') \<and>
   (steps \<noteq> [] \<longrightarrow> ctx' \<noteq> [])"
proof (induction rule: clean_run.induct)
  case (finished ctx w)
  show ?case by simp
next
  case (appended w now w1 step_func agent ctx added w2 steps ctx' w')
  then show ?case by (cases steps) auto
qed

text \<open>No run of the five steps of \<^verbatim>\<open>solve\<close> is one in which every step appends to the context.\<close>

lemma steps_of_solve_never_clean:
  "\<not> clean_run time_time float_sub start_time timeout task (steps_of_solve create) ctx w ctx' w'"
  using clean_run_run_steps [of time_time float_sub start_time timeout task "steps_of_solve create" ctx w ctx' w']
    solve_loop_always_returns [of time_time float_sub start_time timeout task create ctx w]
  by auto

end
